theory Spec2Isabelle
  imports Complex_Main "HOL-Library.Sublist"
begin

text \<open>
  A model of the TMDB person provider (\<open>TMDBProvider\<close>) and of its \<open>DataFormatter\<close>: the
  search ranking, the record fetch, the conversion of raw payloads to the canonical
  record and the projection to the presentation record. Each definition follows the
  TypeScript function of the same name. A number is the rational that a finite IEEE 754
  double denotes. The arithmetic of the relevance score rounds as the runtime does
  (\<open>roundDouble\<close>); a result beyond the finite range, which the runtime turns into
  Infinity, is not represented. The counting and averaging of seasons is exact.
\<close>

section \<open>JavaScript strings\<close>

text \<open>
  A JavaScript string is a sequence of UTF-16 code units. The regular expressions of the
  source carry no \<^verbatim>\<open>u\<close> flag, so they too work on code units. A code unit is modelled
  as a natural number, a string as a list of them; \<open>js\<close> embeds an ASCII literal.
\<close>

type_synonym jschar = nat
type_synonym jsstring = "jschar list"

definition js :: "string \<Rightarrow> jsstring" where
  "js s = map of_char s"

text \<open>
  The class \<^verbatim>\<open>\s\<close> of a regular expression and the characters removed by
  \<^verbatim>\<open>String.prototype.trim\<close> are the same set: WhiteSpace and LineTerminator of ECMAScript.
\<close>

definition isWhiteSpace :: "jschar \<Rightarrow> bool" where
  "isWhiteSpace c =
     ((9 \<le> c \<and> c \<le> 13) \<or> c = 32 \<or> c = 160 \<or> c = 5760 \<or> (8192 \<le> c \<and> c \<le> 8202) \<or>
      c = 8232 \<or> c = 8233 \<or> c = 8239 \<or> c = 8287 \<or> c = 12288 \<or> c = 65279)"

definition isUpperAZ :: "jschar \<Rightarrow> bool" where
  "isUpperAZ c = (65 \<le> c \<and> c \<le> 90)"

definition isLowerAZ :: "jschar \<Rightarrow> bool" where
  "isLowerAZ c = (97 \<le> c \<and> c \<le> 122)"

text \<open>The class \<^verbatim>\<open>\w\<close>, which decides the word boundary \<^verbatim>\<open>\b\<close>.\<close>

definition isWordChar :: "jschar \<Rightarrow> bool" where
  "isWordChar c = (isUpperAZ c \<or> isLowerAZ c \<or> (48 \<le> c \<and> c \<le> 57) \<or> c = 95)"

definition trim :: "jsstring \<Rightarrow> jsstring" where
  "trim s = rev (dropWhile isWhiteSpace (rev (dropWhile isWhiteSpace s)))"

text \<open>
  \<^verbatim>\<open>toLowerCase\<close> follows the Unicode case tables of the runtime: the default case
  conversion, with the special casing that does not depend on the locale. On a string of
  ASCII code units this is the replacement of the letters A to Z by a to z. The tables
  for the other code units are no part of the repository: on a string that holds a code
  unit beyond the ASCII range the result is that of the parameter \<open>unicodeLower\<close>,
  which stands for the built-in there (it lowers Cyrillic, Greek and every other cased
  letter). Every function that lowers case carries this parameter, and every theorem
  holds whatever it is.
\<close>

definition toLowerCase :: "(jsstring \<Rightarrow> jsstring) \<Rightarrow> jsstring \<Rightarrow> jsstring" where
  "toLowerCase unicodeLower s =
     (if list_all (\<lambda>c. c < 128) s then map (\<lambda>c. if isUpperAZ c then c + 32 else c) s
      else unicodeLower s)"

fun startsWith :: "jsstring \<Rightarrow> jsstring \<Rightarrow> bool" where
  "startsWith s [] = True"
| "startsWith [] (p # ps) = False"
| "startsWith (c # cs) (p # ps) = (c = p \<and> startsWith cs ps)"

fun includesStr :: "jsstring \<Rightarrow> jsstring \<Rightarrow> bool" where
  "includesStr [] p = (p = [])"
| "includesStr (c # cs) p = (startsWith (c # cs) p \<or> includesStr cs p)"

text \<open>\<^verbatim>\<open>s.replace(/\s+/g, ' ')\<close>: every maximal run of white space becomes one space.\<close>

function collapseWhiteSpace :: "jsstring \<Rightarrow> jsstring" where
  "collapseWhiteSpace [] = []"
| "collapseWhiteSpace (c # cs) =
     (if isWhiteSpace c then 32 # collapseWhiteSpace (dropWhile isWhiteSpace cs)
      else c # collapseWhiteSpace cs)"
  by pat_completeness auto
termination
  by (relation "measure length") (auto simp: length_dropWhile_le less_Suc_eq_le)

text \<open>
  \<^verbatim>\<open>s.replace(/\b[A-Z]\.\s*/g, '')\<close>, scanning from the left. The flag says whether the
  code unit before the current position (in the input, matched or not) is a word
  character: \<^verbatim>\<open>\b\<close> before a capital letter holds exactly when it is not. A match
  ends in a period or in white space, so the scan resumes with the flag cleared.
\<close>

function removeInitials :: "bool \<Rightarrow> jsstring \<Rightarrow> jsstring" where
  "removeInitials w [] = []"
| "removeInitials w [c] = [c]"
| "removeInitials w (c # d # cs) =
     (if \<not> w \<and> isUpperAZ c \<and> d = 46
      then removeInitials False (dropWhile isWhiteSpace cs)
      else c # removeInitials (isWordChar c) (d # cs))"
  by pat_completeness auto
termination
  by (relation "measure (\<lambda>(w, s). length s)")
     (auto simp: length_dropWhile_le less_Suc_eq_le le_SucI)

text \<open>\<^verbatim>\<open>`${n}`\<close> for a non-negative integer: its decimal digits.\<close>

function numberToString :: "nat \<Rightarrow> jsstring" where
  "numberToString n =
     (if n < 10 then [48 + n] else numberToString (n div 10) @ [48 + n mod 10])"
  by pat_completeness auto
termination
  by (relation "measure id") auto

section \<open>JavaScript numbers\<close>

text \<open>
  A finite number of the runtime is an IEEE 754 double: zero, or \<open>m * 2 powi e\<close> with an
  integer \<open>m\<close> of at most 53 bits and \<open>e \<ge> -1074\<close>. The result of an addition or a
  multiplication is the exact result rounded to the nearest double, to the one with the
  even significand when two are equally near. \<open>binade x\<close> is the exponent of the power
  of two at or below \<open>\<bar>x\<bar>\<close>, \<open>ulp x\<close> the distance of neighbouring doubles around
  \<open>x\<close> (constant in the subnormal range, below \<open>2 powi - 1022\<close>).
\<close>

function binadeUp :: "rat \<Rightarrow> int" where
  "binadeUp x = (if x < 2 then 0 else binadeUp (x / 2) + 1)"
  by pat_completeness auto
termination
proof (relation "measure (\<lambda>x. nat \<lfloor>x\<rfloor>)")
  show "wf (measure (\<lambda>x::rat. nat \<lfloor>x\<rfloor>))" by simp
next
  fix x :: rat
  assume "\<not> x < 2"
  then have "x / 2 \<le> x - 1" by simp
  then have "\<lfloor>x / 2\<rfloor> \<le> \<lfloor>x - 1\<rfloor>" by (rule floor_mono)
  moreover have "2 \<le> \<lfloor>x\<rfloor>" using \<open>\<not> x < 2\<close> by (simp add: le_floor_iff)
  ultimately show "(x / 2, x) \<in> measure (\<lambda>x. nat \<lfloor>x\<rfloor>)" by simp
qed

function binadeDown :: "rat \<Rightarrow> int" where
  "binadeDown x = (if x \<le> 0 \<or> 1 \<le> x then 0 else binadeDown (x * 2) - 1)"
  by pat_completeness auto
termination
proof (relation "measure (\<lambda>x. nat \<lceil>1 / x\<rceil>)")
  show "wf (measure (\<lambda>x::rat. nat \<lceil>1 / x\<rceil>))" by simp
next
  fix x :: rat
  assume "\<not> (x \<le> 0 \<or> 1 \<le> x)"
  then have pos: "0 < x" and lt: "x < 1" by simp_all
  then have one: "1 < 1 / x" by simp
  have "\<lceil>1 / (x * 2)\<rceil> < \<lceil>1 / x\<rceil>"
  proof (cases "1 / x \<le> 2")
    case True
    then have "1 / (x * 2) \<le> 1" using pos by (simp add: field_simps)
    then have "\<lceil>1 / (x * 2)\<rceil> \<le> 1" by (simp add: ceiling_le_iff)
    moreover have "1 < \<lceil>1 / x\<rceil>" using one by (simp add: less_ceiling_iff)
    ultimately show ?thesis by linarith
  next
    case False
    then have "1 / (x * 2) \<le> 1 / x - 1" using pos by (simp add: field_simps)
    then have "\<lceil>1 / (x * 2)\<rceil> \<le> \<lceil>1 / x - 1\<rceil>" by (rule ceiling_mono)
    then show ?thesis by simp
  qed
  moreover have "(0::rat) < 1 / x" using pos by simp
  then have "0 < \<lceil>1 / x\<rceil>" by (simp only: zero_less_ceiling)
  moreover note this
  ultimately show "(x * 2, x) \<in> measure (\<lambda>x. nat \<lceil>1 / x\<rceil>)" by simp
qed

declare binadeUp.simps [simp del] binadeDown.simps [simp del]

definition binade :: "rat \<Rightarrow> int" where
  "binade x = (if 1 \<le> \<bar>x\<bar> then binadeUp \<bar>x\<bar> else binadeDown \<bar>x\<bar>)"

definition roundHalfEven :: "rat \<Rightarrow> int" where
  "roundHalfEven m =
     (let f = \<lfloor>m\<rfloor> in
      if m - of_int f < 1 / 2 then f
      else if 1 / 2 < m - of_int f then f + 1
      else if even f then f else f + 1)"

definition ulp :: "rat \<Rightarrow> rat" where
  "ulp x = 2 powi (max (binade x) (- 1022) - 52)"

definition roundDouble :: "rat \<Rightarrow> rat" where
  "roundDouble x = (if x = 0 then 0 else of_int (roundHalfEven (x / ulp x)) * ulp x)"



section \<open>DataFormatter: text cleaning and array formatting\<close>

definition MAX_ARRAY_ITEMS :: nat where
  "MAX_ARRAY_ITEMS = 50"

datatype FormatType =
  SHORT_VALUE | LONG_TEXT | URL | LINK | LINK_WITH_PATH | LINK_ID_WITH_PATH

text \<open>
  An element handed to \<open>formatArray\<close> is a string or an object with a name and an
  optional numeric id. An absent id and the id 0 are both falsy.
\<close>

datatype item = Str jsstring | Named jsstring "nat option"

text \<open>\<^verbatim>\<open>if (!text) return ""; return text.replace(/:/g, "").trim();\<close>\<close>

definition cleanTextForMetadata :: "jsstring \<Rightarrow> jsstring" where
  "cleanTextForMetadata text =
     (if text = [] then [] else trim (filter (\<lambda>c. c \<noteq> 58) text))"

text \<open>
  \<^verbatim>\<open>typeof item === 'object' && item.name ? item.name : item\<close>, followed by the test
  \<^verbatim>\<open>typeof item === 'string'\<close> of the filter: an object without a name stays an
  object and is dropped.
\<close>

fun stringItem :: "item \<Rightarrow> jsstring option" where
  "stringItem (Str s) = Some s"
| "stringItem (Named n i) = (if n \<noteq> [] then Some n else None)"

text \<open>The name and id read by the \<open>LINK_ID_WITH_PATH\<close> branch; a string has neither.\<close>

fun personItem :: "item \<Rightarrow> (jsstring \<times> nat option) option" where
  "personItem (Str s) = None"
| "personItem (Named n i) = (if n \<noteq> [] \<and> trim n \<noteq> [] then Some (n, i) else None)"

definition truthyPath :: "jsstring option \<Rightarrow> bool" where
  "truthyPath folderPath =
     (case folderPath of None \<Rightarrow> False | Some p \<Rightarrow> p \<noteq> [] \<and> trim p \<noteq> [])"

definition truthyId :: "nat option \<Rightarrow> bool" where
  "truthyId i = (case i of None \<Rightarrow> False | Some n \<Rightarrow> n \<noteq> 0)"

definition wikiLink :: "jsstring \<Rightarrow> jsstring" where
  "wikiLink body = js ''\"[['' @ body @ js '']]\"''"

definition formatLinkId :: "jsstring option \<Rightarrow> jsstring \<times> nat option \<Rightarrow> jsstring" where
  "formatLinkId folderPath p =
     (let cleanName = cleanTextForMetadata (fst p) in
      if truthyPath folderPath \<and> truthyId (snd p)
      then wikiLink (the folderPath @ js ''/'' @ numberToString (the (snd p)) @ js ''|'' @ cleanName)
      else if truthyId (snd p)
      then wikiLink (numberToString (the (snd p)) @ js ''|'' @ cleanName)
      else wikiLink cleanName)"

definition formatLongText :: "jsstring \<Rightarrow> jsstring" where
  "formatLongText item =
     js ''\"'' @ trim (collapseWhiteSpace (map (\<lambda>c. if c = 10 then 32 else c) item)) @ js ''\"''"

definition formatLinkWithPath :: "jsstring option \<Rightarrow> jsstring \<Rightarrow> jsstring" where
  "formatLinkWithPath folderPath item =
     (let cleanName = cleanTextForMetadata item in
      if truthyPath folderPath then wikiLink (the folderPath @ js ''/'' @ cleanName)
      else wikiLink cleanName)"

definition formatArray ::
    "item list \<Rightarrow> FormatType \<Rightarrow> jsstring option \<Rightarrow> nat \<Rightarrow> jsstring list" where
  "formatArray items formatType folderPath maxItems =
     (if formatType = LINK_ID_WITH_PATH
      then map (formatLinkId folderPath) (take maxItems (List.map_filter personItem items))
      else
        let stringItems = List.map_filter stringItem items;
            filteredItems = take maxItems (filter (\<lambda>s. trim s \<noteq> []) stringItems)
        in case formatType of
             SHORT_VALUE \<Rightarrow> map cleanTextForMetadata filteredItems
           | LONG_TEXT \<Rightarrow> map formatLongText filteredItems
           | URL \<Rightarrow> map trim filteredItems
           | LINK \<Rightarrow> map (\<lambda>s. wikiLink (cleanTextForMetadata s)) filteredItems
           | LINK_WITH_PATH \<Rightarrow> map (formatLinkWithPath folderPath) filteredItems
           | LINK_ID_WITH_PATH \<Rightarrow> filteredItems)"

section \<open>DataFormatter: alternate names\<close>

text \<open>\<^verbatim>\<open>/^[A-Za-z\s\-\'\"\.\,\(\)]+$/.test(s)\<close>\<close>

definition englishOnlyChar :: "jschar \<Rightarrow> bool" where
  "englishOnlyChar c =
     (isUpperAZ c \<or> isLowerAZ c \<or> isWhiteSpace c \<or>
      c = 45 \<or> c = 39 \<or> c = 34 \<or> c = 46 \<or> c = 44 \<or> c = 40 \<or> c = 41)"

definition englishOnlyRegex :: "jsstring \<Rightarrow> bool" where
  "englishOnlyRegex s = (s \<noteq> [] \<and> list_all englishOnlyChar s)"

definition normalizeName :: "(jsstring \<Rightarrow> jsstring) \<Rightarrow> jsstring \<Rightarrow> jsstring" where
  "normalizeName unicodeLower name = trim (collapseWhiteSpace (toLowerCase unicodeLower name))"

definition areSimilarNames :: "(jsstring \<Rightarrow> jsstring) \<Rightarrow> jsstring \<Rightarrow> jsstring \<Rightarrow> bool" where
  "areSimilarNames unicodeLower name1 name2 =
     (let norm1 = normalizeName unicodeLower name1; norm2 = normalizeName unicodeLower name2
      in includesStr norm1 norm2 \<or> includesStr norm2 norm1)"

definition baseNameOf :: "jsstring \<Rightarrow> jsstring" where
  "baseNameOf trimmedName =
     trim (collapseWhiteSpace (removeInitials False (collapseWhiteSpace trimmedName)))"

text \<open>
  The loop over the filtered names, with its two accumulators \<open>uniqueNames\<close> and
  \<open>processedBaseNames\<close> (both grow at the end).
\<close>

fun dedupNames :: "(jsstring \<Rightarrow> jsstring) \<Rightarrow> jsstring list \<Rightarrow> jsstring list \<Rightarrow> jsstring list \<Rightarrow> jsstring list" where
  "dedupNames unicodeLower uniqueNames processedBaseNames [] = uniqueNames"
| "dedupNames unicodeLower uniqueNames processedBaseNames (name # rest) =
     (let trimmedName = trim name;
          baseName = baseNameOf trimmedName;
          isDuplicate = list_ex (\<lambda>processedName. areSimilarNames unicodeLower baseName processedName)
                          processedBaseNames
      in if \<not> isDuplicate
         then dedupNames unicodeLower (uniqueNames @ [trimmedName]) (processedBaseNames @ [baseName]) rest
         else dedupNames unicodeLower uniqueNames processedBaseNames rest)"

definition extractEnglishNamesOnly :: "(jsstring \<Rightarrow> jsstring) \<Rightarrow> jsstring list \<Rightarrow> jsstring list" where
  "extractEnglishNamesOnly unicodeLower names =
     (let englishNames = filter (\<lambda>name. englishOnlyRegex (trim name)) names
      in dedupNames unicodeLower [] [] englishNames)"

text \<open>
  \<open>combineNamesForAliases\<close>: the loop over the alternate names, with the accumulator
  \<open>combinedNames\<close>; an empty name is skipped, an empty collected name never counts as
  similar.
\<close>

fun combineLoop :: "(jsstring \<Rightarrow> jsstring) \<Rightarrow> jsstring list \<Rightarrow> jsstring list \<Rightarrow> jsstring list" where
  "combineLoop unicodeLower combinedNames [] = combinedNames"
| "combineLoop unicodeLower combinedNames (name # rest) =
     (if name = [] then combineLoop unicodeLower combinedNames rest
      else
        let isDuplicate =
              list_ex (\<lambda>mainName. mainName \<noteq> [] \<and> areSimilarNames unicodeLower name mainName) combinedNames
        in if \<not> isDuplicate then combineLoop unicodeLower (combinedNames @ [name]) rest
           else combineLoop unicodeLower combinedNames rest)"

definition combineNamesForAliases :: "(jsstring \<Rightarrow> jsstring) \<Rightarrow> jsstring list \<Rightarrow> jsstring list \<Rightarrow> jsstring list" where
  "combineNamesForAliases unicodeLower mainNames alsoKnownAsNames =
     filter (\<lambda>name. name \<noteq> [] \<and> trim name \<noteq> []) (combineLoop unicodeLower mainNames alsoKnownAsNames)"

section \<open>DataFormatter: images\<close>

text \<open>
  \<open>x || d\<close> on an optional string: \<open>undefined\<close> and the empty string are falsy.
\<close>

definition truthy :: "jsstring option \<Rightarrow> bool" where
  "truthy x = (case x of None \<Rightarrow> False | Some s \<Rightarrow> s \<noteq> [])"

definition orElse :: "jsstring option \<Rightarrow> jsstring \<Rightarrow> jsstring" where
  "orElse x d = (if truthy x then the x else d)"

text \<open>\<open>x || 0\<close> on an optional number and \<open>x || []\<close> on an optional array.\<close>

definition orZero :: "rat option \<Rightarrow> rat" where
  "orZero x = (case x of None \<Rightarrow> 0 | Some v \<Rightarrow> v)"

definition orEmpty :: "'a list option \<Rightarrow> 'a list" where
  "orEmpty x = (case x of None \<Rightarrow> [] | Some xs \<Rightarrow> xs)"

definition IMAGE_BASE_URL :: jsstring where
  "IMAGE_BASE_URL = js ''https://image.tmdb.org/t/p/''"

definition POSTER_ORIGINAL :: jsstring where "POSTER_ORIGINAL = js ''original''"
definition POSTER_W500 :: jsstring where "POSTER_W500 = js ''w500''"
definition POSTER_W185 :: jsstring where "POSTER_W185 = js ''w185''"
definition BACKDROP_ORIGINAL :: jsstring where "BACKDROP_ORIGINAL = js ''original''"
definition BACKDROP_W1280 :: jsstring where "BACKDROP_W1280 = js ''w1280''"
definition PROFILE_W185 :: jsstring where "PROFILE_W185 = js ''w185''"

definition buildImageUrl :: "jsstring \<Rightarrow> jsstring \<Rightarrow> jsstring" where
  "buildImageUrl path sz = IMAGE_BASE_URL @ sz @ path"

text \<open>An entry of an image list of the images endpoint; the language tag may be null.\<close>

record image_entry =
  iso_639_1 :: "jsstring option"
  file_path :: jsstring

record image_urls =
  url :: jsstring
  previewUrl :: jsstring

datatype image_role = Logo | Poster | Backdrop

definition originalAndW500 :: "jsstring \<Rightarrow> image_urls" where
  "originalAndW500 path =
     \<lparr> url = buildImageUrl path POSTER_ORIGINAL, previewUrl = buildImageUrl path POSTER_W500 \<rparr>"

text \<open>
  \<open>None\<close> is the \<open>undefined\<close> the source returns for an absent or empty list. The role
  argument is not read by the body.
\<close>

definition extractBestImage :: "image_entry list option \<Rightarrow> image_role \<Rightarrow> image_urls option" where
  "extractBestImage images role =
     (case images of
        None \<Rightarrow> None
      | Some [] \<Rightarrow> None
      | Some (first # others) \<Rightarrow>
          (case find (\<lambda>img. iso_639_1 img = Some (js ''ru'')) (first # others) of
             Some ruImage \<Rightarrow> Some (originalAndW500 (file_path ruImage))
           | None \<Rightarrow>
               (case find (\<lambda>img. iso_639_1 img = Some (js ''en'')) (first # others) of
                  Some enImage \<Rightarrow> Some (originalAndW500 (file_path enImage))
                | None \<Rightarrow> Some (originalAndW500 (file_path first)))))"

section \<open>DataFormatter: credits\<close>

text \<open>
  One shape serves cast and crew entries of a credits payload; a cast entry carries no
  job and no department.
\<close>

record credit_entry =
  credit_id :: nat
  credit_name :: jsstring
  original_name :: "jsstring option"
  profile_path :: "jsstring option"
  job :: "jsstring option"
  department :: "jsstring option"

record credits =
  cast :: "credit_entry list option"
  crew :: "credit_entry list option"

text \<open>
  The profession fields are optional: an entry built from an inherited property of the
  table has neither (see \<open>PROFESSION_MAP\<close>).
\<close>

record TMDBPerson =
  person_id :: nat
  person_name :: jsstring
  enName :: jsstring
  enProfession :: "jsstring option"
  profession :: "jsstring option"
  photo :: "jsstring option"

text \<open>
  \<open>PROFESSION_MAP\<close> is an object literal read with \<^verbatim>\<open>PROFESSION_MAP[person.job]\<close>. The
  lookup of a key that is not an own property continues in \<^verbatim>\<open>Object.prototype\<close>, whose
  properties are functions (or, for \<^verbatim>\<open>__proto__\<close>, the prototype object): truthy values
  without an \<^verbatim>\<open>enProfession\<close> or a \<^verbatim>\<open>profession\<close>. An absent job is the key
  \<^verbatim>\<open>"undefined"\<close>.
\<close>

datatype mapping = Entry jsstring jsstring | Inherited

definition objectPrototypeKeys :: "jsstring list" where
  "objectPrototypeKeys =
     [js ''constructor'', js ''__defineGetter__'', js ''__defineSetter__'',
      js ''hasOwnProperty'', js ''__lookupGetter__'', js ''__lookupSetter__'',
      js ''isPrototypeOf'', js ''propertyIsEnumerable'', js ''toString'', js ''valueOf'',
      js ''__proto__'', js ''toLocaleString'']"

definition director_ru :: jsstring where
  "director_ru = [1088, 1077, 1078, 1080, 1089, 1089, 1077, 1088]"

definition writer_ru :: jsstring where
  "writer_ru = [1089, 1094, 1077, 1085, 1072, 1088, 1080, 1089, 1090]"

definition producer_ru :: jsstring where
  "producer_ru = [1087, 1088, 1086, 1076, 1102, 1089, 1077, 1088]"

definition actor_ru :: jsstring where
  "actor_ru = [1072, 1082, 1090, 1077, 1088]"

definition propertyKey :: "jsstring option \<Rightarrow> jsstring" where
  "propertyKey k = (case k of None \<Rightarrow> js ''undefined'' | Some s \<Rightarrow> s)"

definition PROFESSION_MAP :: "jsstring option \<Rightarrow> mapping option" where
  "PROFESSION_MAP k =
     (let key = propertyKey k in
      if key = js ''Director'' then Some (Entry (js ''director'') director_ru)
      else if key = js ''Writer'' then Some (Entry (js ''writer'') writer_ru)
      else if key = js ''Screenplay'' then Some (Entry (js ''writer'') writer_ru)
      else if key = js ''Producer'' then Some (Entry (js ''producer'') producer_ru)
      else if key = js ''Executive Producer'' then Some (Entry (js ''producer'') producer_ru)
      else if key \<in> set objectPrototypeKeys then Some Inherited
      else None)"

fun mapping_enProfession :: "mapping \<Rightarrow> jsstring option" where
  "mapping_enProfession (Entry en ru) = Some en"
| "mapping_enProfession Inherited = None"

fun mapping_profession :: "mapping \<Rightarrow> jsstring option" where
  "mapping_profession (Entry en ru) = Some ru"
| "mapping_profession Inherited = None"

definition personOf :: "credit_entry \<Rightarrow> jsstring option \<Rightarrow> jsstring option \<Rightarrow> TMDBPerson" where
  "personOf person en ru =
     \<lparr> person_id = credit_id person,
       person_name = credit_name person,
       enName = orElse (original_name person) (credit_name person),
       enProfession = en,
       profession = ru,
       photo = (if truthy (profile_path person)
                then Some (buildImageUrl (the (profile_path person)) PROFILE_W185) else None) \<rparr>"

text \<open>The body of the \<open>forEach\<close> over the crew: the persons it pushes for one entry.\<close>

definition crewPersons :: "credit_entry \<Rightarrow> TMDBPerson list" where
  "crewPersons person =
     (let mapping = PROFESSION_MAP (job person) in
      if mapping = None \<and> department person = Some (js ''Writing'')
      then [personOf person (Some (js ''writer'')) (Some writer_ru)]
      else if mapping \<noteq> None
      then [personOf person (mapping_enProfession (the mapping)) (mapping_profession (the mapping))]
      else [])"

definition convertCreditsToPersons :: "credits \<Rightarrow> TMDBPerson list" where
  "convertCreditsToPersons cr =
     map (\<lambda>person. personOf person (Some (js ''actor'')) (Some actor_ru))
         (take 20 (orEmpty (cast cr)))
     @ concat (map crewPersons (orEmpty (crew cr)))"

section \<open>DataFormatter: conversion to the canonical record\<close>

text \<open>
  The canonical record, restricted to the fields that the operations modelled here
  write or read. An optional field of the source is an \<open>option\<close>; \<open>None\<close> is
  \<open>undefined\<close>. Numbers of the payloads are exact rationals or integers.
\<close>

record season_info =
  number :: int
  episodesCount :: int

record TMDBFullInfo =
  info_id :: nat
  info_name :: jsstring
  info_type :: jsstring
  description :: jsstring
  info_poster :: "image_urls option"
  info_backdrop :: "image_urls option"
  info_logo :: "image_urls option"
  persons :: "TMDBPerson list"
  isSeries :: bool
  TMDBLink :: "jsstring option"
  seasonsInfo :: "season_info list option"
  rating_tmdb :: "rat option"
  externalId_imdb :: "jsstring option"
  slogan :: "jsstring option"
  premiere_world :: "jsstring option"
  deathday :: "jsstring option"
  gender :: "nat option"
  birthPlace :: "jsstring option"
  deathPlace :: "jsstring option"
  hometown :: "jsstring option"
  homepage :: "jsstring option"
  knownForDepartment :: "jsstring option"
  alsoKnownAs :: "jsstring list option"

text \<open>\<^verbatim>\<open>images?.posters?.length > 0\<close>\<close>

definition hasEntries :: "'a list option \<Rightarrow> bool" where
  "hasEntries x = (case x of None \<Rightarrow> False | Some xs \<Rightarrow> xs \<noteq> [])"

record season =
  season_number :: int
  episode_count :: int

record tv_images =
  posters :: "image_entry list option"
  backdrops :: "image_entry list option"
  logos :: "image_entry list option"

record tv_details =
  tv_id :: nat
  tv_name :: "jsstring option"
  tv_overview :: "jsstring option"
  tv_poster_path :: "jsstring option"
  tv_backdrop_path :: "jsstring option"
  tv_homepage :: "jsstring option"
  first_air_date :: "jsstring option"
  seasons :: "season list option"
  tv_vote_average :: "rat option"
  tv_external_imdb_id :: "jsstring option"

definition convertTVShowToTMDBFormat ::
    "tv_details \<Rightarrow> credits \<Rightarrow> tv_images option \<Rightarrow> TMDBFullInfo" where
  "convertTVShowToTMDBFormat details cr images =
     \<lparr> info_id = tv_id details,
       info_name = orElse (tv_name details) [],
       info_type = js ''tv-series'',
       description = orElse (tv_overview details) [],
       info_poster =
         (if hasEntries (Option.bind images posters)
          then extractBestImage (Option.bind images posters) Poster
          else if truthy (tv_poster_path details)
          then Some (originalAndW500 (the (tv_poster_path details)))
          else None),
       info_backdrop =
         (if hasEntries (Option.bind images backdrops)
          then extractBestImage (Option.bind images backdrops) Backdrop
          else if truthy (tv_backdrop_path details)
          then Some \<lparr> url = buildImageUrl (the (tv_backdrop_path details)) BACKDROP_ORIGINAL,
                      previewUrl = buildImageUrl (the (tv_backdrop_path details)) BACKDROP_W1280 \<rparr>
          else None),
       info_logo =
         (if hasEntries (Option.bind images logos)
          then extractBestImage (Option.bind images logos) Logo
          else None),
       persons = convertCreditsToPersons cr,
       isSeries = True,
       TMDBLink = tv_homepage details,
       seasonsInfo =
         Some (map (\<lambda>s. \<lparr> number = season_number s, episodesCount = episode_count s \<rparr>)
                 (filter (\<lambda>s. season_number s > 0) (orEmpty (seasons details)))),
       rating_tmdb = Some (orZero (tv_vote_average details)),
       externalId_imdb = tv_external_imdb_id details,
       slogan = None,
       premiere_world = first_air_date details,
       deathday = None,
       gender = None,
       birthPlace = None,
       deathPlace = None,
       hometown = None,
       homepage = None,
       knownForDepartment = None,
       alsoKnownAs = None \<rparr>"

record person_images =
  profiles :: "image_entry list option"
  tagged_images :: "image_entry list option"

record person_details =
  pd_id :: nat
  pd_name :: "jsstring option"
  pd_original_name :: "jsstring option"
  biography :: "jsstring option"
  pd_profile_path :: "jsstring option"
  known_for_department :: "jsstring option"
  pd_knownForDepartment :: "jsstring option"
  popularity :: "rat option"
  imdb_id :: "jsstring option"
  external_ids_imdb_id :: "jsstring option"
  birthday :: "jsstring option"
  pd_deathday :: "jsstring option"
  pd_gender :: "nat option"
  place_of_birth :: "jsstring option"
  death_place :: "jsstring option"
  also_known_as :: "jsstring list option"
  pd_hometown :: "jsstring option"
  pd_homepage :: "jsstring option"

definition convertPersonToTMDBFormat ::
    "(jsstring \<Rightarrow> jsstring) \<Rightarrow> person_details \<Rightarrow> credits \<Rightarrow> person_images option \<Rightarrow> TMDBFullInfo" where
  "convertPersonToTMDBFormat unicodeLower details cr images =
     (let department =
            orElse (known_for_department details) (orElse (pd_knownForDepartment details) (js ''Acting''))
      in
      \<lparr> info_id = pd_id details,
        info_name = orElse (pd_name details) [],
        info_type = js ''person'',
        description = orElse (biography details) [],
        info_poster =
          (if hasEntries (Option.bind images profiles)
           then extractBestImage (Option.bind images profiles) Poster
           else if truthy (pd_profile_path details)
           then Some (originalAndW500 (the (pd_profile_path details)))
           else None),
        info_backdrop =
          (if hasEntries (Option.bind images tagged_images)
           then extractBestImage (Option.bind images tagged_images) Backdrop
           else None),
        info_logo = None,
        persons = [],
        isSeries = False,
        TMDBLink = Some (js ''https://www.themoviedb.org/person/'' @ numberToString (pd_id details)),
        seasonsInfo = None,
        rating_tmdb = Some (orZero (popularity details)),
        externalId_imdb =
          (if truthy (imdb_id details) then imdb_id details else external_ids_imdb_id details),
        slogan = Some department,
        premiere_world = birthday details,
        deathday = Some (orElse (pd_deathday details) []),
        gender = pd_gender details,
        birthPlace = Some (orElse (place_of_birth details) []),
        deathPlace = Some (orElse (death_place details) []),
        hometown = Some (orElse (pd_hometown details) (orElse (place_of_birth details) [])),
        homepage = Some (orElse (pd_homepage details) (orElse (pd_homepage details) [])),
        knownForDepartment =
          Some (orElse (known_for_department details) (orElse (pd_knownForDepartment details) [])),
        alsoKnownAs = Some (extractEnglishNamesOnly unicodeLower (orEmpty (also_known_as details))) \<rparr>)"

section \<open>DataFormatter: presentation projection\<close>

record seasons_data =
  seasonCount :: nat
  averageEpisodesPerSeason :: int

definition calculateSeasonsData :: "season_info list option \<Rightarrow> seasons_data" where
  "calculateSeasonsData si =
     (case si of
        None \<Rightarrow> \<lparr> seasonCount = 0, averageEpisodesPerSeason = 0 \<rparr>
      | Some infos \<Rightarrow>
          if infos = [] then \<lparr> seasonCount = 0, averageEpisodesPerSeason = 0 \<rparr>
          else
            let totalEpisodes = foldl (\<lambda>total s. total + episodesCount s) 0 infos;
                averageEpisodes = \<lceil>(of_int totalEpisodes :: rat) / of_nat (length infos)\<rceil>
            in \<lparr> seasonCount = length infos, averageEpisodesPerSeason = averageEpisodes \<rparr>)"

text \<open>
  The presentation record is an object literal: a list of keys with their values. A value
  is an array of strings or a number.
\<close>

datatype field = Strings "jsstring list" | Number rat

definition female_ru :: jsstring where
  "female_ru = [1046, 1077, 1085, 1089, 1082, 1080, 1081]"

definition male_ru :: jsstring where
  "male_ru = [1052, 1091, 1078, 1089, 1082, 1086, 1081]"

definition unspecified_ru :: jsstring where
  "unspecified_ru = [1053, 1077, 32, 1091, 1082, 1072, 1079, 1072, 1085]"

definition short :: "jsstring list \<Rightarrow> field" where
  "short xs = Strings (formatArray (map Str xs) SHORT_VALUE None MAX_ARRAY_ITEMS)"

definition long :: "jsstring list \<Rightarrow> field" where
  "long xs = Strings (formatArray (map Str xs) LONG_TEXT None MAX_ARRAY_ITEMS)"

definition urls :: "jsstring list \<Rightarrow> field" where
  "urls xs = Strings (formatArray (map Str xs) URL None MAX_ARRAY_ITEMS)"

text \<open>
  The object spread that closes the literal of \<open>createMovieShowFrom\<close>: the fields
  specific to a person, from one of two object literals by the kind of the record.
\<close>

definition personFields :: "(jsstring \<Rightarrow> jsstring) \<Rightarrow> TMDBFullInfo \<Rightarrow> (string \<times> field) list" where
  "personFields unicodeLower fullInfo =
     (if info_type fullInfo = js ''person'' then
        [(''sex'', short [if gender fullInfo = Some 1 then female_ru
                          else if gender fullInfo = Some 2 then male_ru else unspecified_ru]),
         (''spouses'', short []),
         (''birthday'', short [orElse (premiere_world fullInfo) []]),
         (''death'', short [orElse (deathday fullInfo) []]),
         (''growth'', short [orElse (knownForDepartment fullInfo) []]),
         (''kinopoiskUrl'', urls [orElse (TMDBLink fullInfo) []]),
         (''birthPlace'', short [orElse (birthPlace fullInfo) []]),
         (''deathPlace'', short [orElse (deathPlace fullInfo) []]),
         (''alsoKnownAs'', short (extractEnglishNamesOnly unicodeLower (orEmpty (alsoKnownAs fullInfo)))),
         (''biography'', long [description fullInfo]),
         (''hometown'', short [orElse (hometown fullInfo) (orElse (birthPlace fullInfo) [])]),
         (''placeOfBirth'', short [orElse (birthPlace fullInfo) []]),
         (''placeOfDeath'', short [orElse (deathPlace fullInfo) []]),
         (''homepage'', urls [orElse (homepage fullInfo) []]),
         (''knownForDepartment'',
            short [orElse (slogan fullInfo) (orElse (knownForDepartment fullInfo) [])]),
         (''popularity'', Number (orZero (rating_tmdb fullInfo))),
         (''externalIds'', short [orElse (externalId_imdb fullInfo) []]),
         (''allNames'',
            Strings (combineNamesForAliases unicodeLower [info_name fullInfo]
                       (extractEnglishNamesOnly unicodeLower (orEmpty (alsoKnownAs fullInfo)))))]
      else
        [(''sex'', short [[]]),
         (''spouses'', short [[]]),
         (''birthday'', short [[]]),
         (''death'', short [[]]),
         (''growth'', short [[]]),
         (''kinopoiskUrl'', urls [[]]),
         (''birthPlace'', short [[]]),
         (''deathPlace'', short [[]]),
         (''alsoKnownAs'', short []),
         (''biography'', long [[]]),
         (''hometown'', short [[]]),
         (''placeOfBirth'', short [[]]),
         (''placeOfDeath'', short [[]]),
         (''homepage'', urls [[]]),
         (''knownForDepartment'', short [[]]),
         (''popularity'', Number 0),
         (''externalIds'', short [[]]),
         (''allNames'', short [info_name fullInfo])])"

text \<open>
  \<open>createMovieShowFrom\<close>, restricted to the keys \<open>id\<close>, \<open>name\<close>, \<open>seasonsCount\<close> and
  \<open>seriesInSeasonCount\<close>, the spread of the person fields and the optional
  \<open>userRating\<close>. No omitted key of the literal has the name of a person field.
\<close>

definition createMovieShowFrom :: "(jsstring \<Rightarrow> jsstring) \<Rightarrow> TMDBFullInfo \<Rightarrow> rat option \<Rightarrow> (string \<times> field) list" where
  "createMovieShowFrom unicodeLower fullInfo userRating =
     (let seasonsData = calculateSeasonsData (seasonsInfo fullInfo) in
      [(''id'', Number (of_nat (info_id fullInfo))),
       (''name'', short [info_name fullInfo]),
       (''seasonsCount'', Number (of_nat (seasonCount seasonsData))),
       (''seriesInSeasonCount'', Number (of_int (averageEpisodesPerSeason seasonsData)))]
      @ personFields unicodeLower fullInfo
      @ (case userRating of None \<Rightarrow> [] | Some r \<Rightarrow> [(''userRating'', Number r)]))"

section \<open>TMDBProvider\<close>


datatype error =
  TokenRequired | EnterMovieTitle | NothingFound jsstring | InvalidMovieId
  | TokenRequiredForMovie | ApiError jsstring

text \<open>
  The collaborators whose code is not part of the provider: the validator's three
  predicates and the error handler that wraps what the transport throws.
\<close>

record collaborators =
  isValidToken :: "jsstring \<Rightarrow> bool"
  isValidSearchQuery :: "jsstring \<Rightarrow> bool"
  isValidMovieId :: "int \<Rightarrow> bool"
  handleApiError :: "jsstring \<Rightarrow> error"

text \<open>
  A promise is modelled by the time at which it settles and its outcome: \<open>Inl\<close> a
  rejection, \<open>Inr\<close> the value. \<open>await\<close> yields the outcome.
\<close>

type_synonym 'a promise = "nat \<times> (error + 'a)"

definition await :: "'a promise \<Rightarrow> error + 'a" where
  "await p = snd p"

record search_item =
  item_id :: nat
  item_name :: "jsstring option"
  item_known_for_department :: "jsstring option"
  item_profile_path :: "jsstring option"
  item_popularity :: "rat option"

record search_response =
  results :: "search_item list option"

text \<open>
  The transport: for each endpoint the provider requests, when \<open>requestUrl\<close> settles
  and whether it throws (a network failure or a status that is not 2xx, \<open>Inl\<close> the
  cause) or answers with a JSON body. The URL and the headers built by \<open>apiGet\<close>
  choose the endpoint and are not modelled further.
\<close>

record network =
  searchPerson :: "jsstring \<Rightarrow> nat \<times> (jsstring + search_response)"
  personDetails :: "int \<Rightarrow> nat \<times> (jsstring + person_details)"
  personCombinedCredits :: "int \<Rightarrow> nat \<times> (jsstring + credits)"
  personImages :: "int \<Rightarrow> nat \<times> (jsstring + person_images)"
  configuration :: "nat \<times> (jsstring + unit)"

text \<open>
  \<open>apiGet\<close> rejects at once on an invalid token, without a request; otherwise it
  settles with the request, a thrown cause wrapped by the error handler.
\<close>

definition apiGet :: "collaborators \<Rightarrow> jsstring \<Rightarrow> nat \<times> (jsstring + 'a) \<Rightarrow> 'a promise" where
  "apiGet env token response =
     (if \<not> isValidToken env token then (0, Inl TokenRequired)
      else (fst response,
            case snd response of
              Inl cause \<Rightarrow> Inl (handleApiError env cause)
            | Inr json \<Rightarrow> Inr json))"









record ImageInfo =
  image_url :: jsstring
  language :: "jsstring option"

record image_buckets =
  bucket_posters :: "ImageInfo list"
  bucket_backdrops :: "ImageInfo list"
  bucket_logos :: "ImageInfo list"

definition extractImageData :: "image_entry list \<Rightarrow> ImageInfo list" where
  "extractImageData imageArray =
     filter (\<lambda>img. image_url img \<noteq> [] \<and> trim (image_url img) \<noteq> [])
       (map (\<lambda>img. \<lparr> image_url = IMAGE_BASE_URL @ js ''original'' @ file_path img,
                     language = (if truthy (iso_639_1 img) then iso_639_1 img else None) \<rparr>)
            imageArray)"

text \<open>
  The result type keeps a place for an error, so that the absence of one is a theorem
  and not a convention: the \<open>catch\<close> of the source turns every rejection into the
  empty buckets.
\<close>

definition getAllImages :: "collaborators \<Rightarrow> network \<Rightarrow> int \<Rightarrow> jsstring \<Rightarrow> error + image_buckets" where
  "getAllImages env net ident token =
     (case await (apiGet env token (personImages net ident)) of
        Inl e \<Rightarrow> Inr \<lparr> bucket_posters = [], bucket_backdrops = [], bucket_logos = [] \<rparr>
      | Inr images \<Rightarrow>
          Inr \<lparr> bucket_posters = extractImageData (orEmpty (profiles images)),
                bucket_backdrops = extractImageData (orEmpty (tagged_images images)),
                bucket_logos = [] \<rparr>)"

definition validateToken :: "collaborators \<Rightarrow> network \<Rightarrow> jsstring \<Rightarrow> error + bool" where
  "validateToken env net token =
     (if \<not> isValidToken env token then Inr False
      else
        case await (apiGet env token (configuration net)) of
          Inl e \<Rightarrow> Inr False
        | Inr json \<Rightarrow> Inr True)"

text \<open>
  \<^verbatim>\<open>Promise.all\<close> of three promises: the three values when all are fulfilled, otherwise
  the reason of the rejection that settles first (the earlier position breaks a tie).
  The three promises exist before any of them is awaited.
\<close>

definition earlier :: "nat \<times> error \<Rightarrow> nat \<times> error \<Rightarrow> nat \<times> error" where
  "earlier r1 r2 = (if fst r2 < fst r1 then r2 else r1)"

fun promiseAll :: "'a promise \<Rightarrow> 'b promise \<Rightarrow> 'c promise \<Rightarrow> error + ('a \<times> 'b \<times> 'c)" where
  "promiseAll (t1, Inr a) (t2, Inr b) (t3, Inr c) = Inr (a, b, c)"
| "promiseAll (t1, Inl e1) (t2, Inr b) (t3, Inr c) = Inl e1"
| "promiseAll (t1, Inr a) (t2, Inl e2) (t3, Inr c) = Inl e2"
| "promiseAll (t1, Inr a) (t2, Inr b) (t3, Inl e3) = Inl e3"
| "promiseAll (t1, Inl e1) (t2, Inl e2) (t3, Inr c) = Inl (snd (earlier (t1, e1) (t2, e2)))"
| "promiseAll (t1, Inl e1) (t2, Inr b) (t3, Inl e3) = Inl (snd (earlier (t1, e1) (t3, e3)))"
| "promiseAll (t1, Inr a) (t2, Inl e2) (t3, Inl e3) = Inl (snd (earlier (t2, e2) (t3, e3)))"
| "promiseAll (t1, Inl e1) (t2, Inl e2) (t3, Inl e3) =
     Inl (snd (earlier (earlier (t1, e1) (t2, e2)) (t3, e3)))"

definition getPersonDetails :: "(jsstring \<Rightarrow> jsstring) \<Rightarrow> collaborators \<Rightarrow> network \<Rightarrow> int \<Rightarrow> jsstring \<Rightarrow> error + TMDBFullInfo" where
  "getPersonDetails unicodeLower env net ident token =
     (case promiseAll (apiGet env token (personDetails net ident))
                      (apiGet env token (personCombinedCredits net ident))
                      (apiGet env token (personImages net ident)) of
        Inl e \<Rightarrow> Inl e
      | Inr (details, cr, images) \<Rightarrow> Inr (convertPersonToTMDBFormat unicodeLower details cr (Some images)))"

definition getMovieById ::
    "(jsstring \<Rightarrow> jsstring) \<Rightarrow> collaborators \<Rightarrow> network \<Rightarrow> int \<Rightarrow> jsstring \<Rightarrow> rat option
       \<Rightarrow> error + (string \<times> field) list" where
  "getMovieById unicodeLower env net ident token userRating =
     (if \<not> isValidMovieId env ident then Inl InvalidMovieId
      else if \<not> isValidToken env token then Inl TokenRequiredForMovie
      else
        case getPersonDetails unicodeLower env net ident token of
          Inl e \<Rightarrow> Inl e
        | Inr personData \<Rightarrow> Inr (createMovieShowFrom unicodeLower personData userRating))"

section \<open>Properties\<close>

lemmas char_defs = isWhiteSpace_def isUpperAZ_def isLowerAZ_def isWordChar_def englishOnlyChar_def

subsection \<open>Rounding to the nearest double\<close>








lemma binade_minus [simp]: "binade (- x) = binade x"
  by (simp add: binade_def)

lemma roundHalfEven_of_int [simp]: "roundHalfEven (of_int k) = k"
  by (simp add: roundHalfEven_def)








lemma ulp_pos [simp]: "0 < ulp x"
  by (simp add: ulp_def)

lemma ulp_minus [simp]: "ulp (- x) = ulp x"
  by (simp add: ulp_def)

lemma ulp_nonzero [simp]: "ulp x \<noteq> 0"
  by (simp add: ulp_def)

lemma ulp_nonneg [simp]: "0 \<le> ulp x"
  by (simp add: ulp_def)






lemma roundDouble_zero [simp]: "roundDouble 0 = 0"
  by (simp add: roundDouble_def)









subsection \<open>Alternate names\<close>

text \<open>
  C5. \<open>extractEnglishNamesOnly\<close> applied to "Lynn A. Freedman", "Lynn Freedman" and the
  Cyrillic spelling of the same name returns exactly "Lynn A. Freedman": the Cyrillic
  name fails the Latin-only test, the second name has the base name of the first (whose
  middle initial is stripped for the comparison), and the first-seen name is kept as it
  was written.
\<close>

theorem extractEnglishNamesOnly_lynn_freedman:
  "extractEnglishNamesOnly unicodeLower
     [js ''Lynn A. Freedman'', js ''Lynn Freedman'',
      [1051, 1080, 1085, 1085, 32, 1060, 1088, 1080, 1076, 1084, 1072, 1085]]
   = [js ''Lynn A. Freedman'']"
  by (simp add: extractEnglishNamesOnly_def englishOnlyRegex_def js_def trim_def char_defs
      baseNameOf_def areSimilarNames_def normalizeName_def toLowerCase_def)

subsection \<open>Array formatting\<close>

text \<open>
  C8 says that the short mode cleans first and drops the empty strings afterwards, so
  that an entry consisting of a colon leaves no output entry. \<open>formatArray\<close> drops the
  blank strings before it cleans: the entry ":" is not blank, passes the filter, and is
  cleaned to the empty string, which stays in the output.
\<close>

theorem formatArray_short_colon_only:
  "formatArray [Str (js '':'')] SHORT_VALUE None MAX_ARRAY_ITEMS = [[]]"
  by (simp add: formatArray_def List.map_filter_def js_def trim_def isWhiteSpace_def
      cleanTextForMetadata_def MAX_ARRAY_ITEMS_def)

text \<open>
  The order of the short mode in general: the strings are taken from the elements, the
  blank ones are dropped, the list is cut to the maximum, and the remaining strings are
  cleaned. The output is never longer than the maximum.
\<close>

lemma formatArray_short_order:
  "formatArray items SHORT_VALUE folderPath maxItems
     = map cleanTextForMetadata
         (take maxItems (filter (\<lambda>s. trim s \<noteq> []) (List.map_filter stringItem items)))"
  by (simp add: formatArray_def)

lemma formatArray_short_length:
  "length (formatArray items SHORT_VALUE folderPath maxItems) \<le> maxItems"
  by (simp add: formatArray_short_order)

subsection \<open>Role classification\<close>

text \<open>
  C3 says that a crew entry whose job is not one of the five titles of the table and
  whose department is not "Writing" is absent from the result. The table is read as a
  property of an object literal, so a job named like an inherited property of every
  object ("toString") finds a truthy value: the entry is kept, without a profession.
\<close>

theorem convertCreditsToPersons_inherited_job:
  "convertCreditsToPersons
     \<lparr> cast = None,
       crew = Some [\<lparr> credit_id = 7, credit_name = js ''Ann'', original_name = None,
                      profile_path = None, job = Some (js ''toString''),
                      department = Some (js ''Directing'') \<rparr>] \<rparr>
   = [\<lparr> person_id = 7, person_name = js ''Ann'', enName = js ''Ann'',
        enProfession = None, profession = None, photo = None \<rparr>]"
  by (simp add: convertCreditsToPersons_def crewPersons_def PROFESSION_MAP_def propertyKey_def
      objectPrototypeKeys_def personOf_def orElse_def orEmpty_def truthy_def js_def)

text \<open>
  For every job that is not the name of an inherited property, the precedence is the
  stated one: the profession of the table for one of its five titles, otherwise writer
  for the department "Writing", otherwise no person. The first 20 cast entries come
  first, each an actor.
\<close>

lemma crewPersons_precedence:
  assumes "propertyKey (job person) \<notin> set objectPrototypeKeys"
  shows "crewPersons person =
     (if propertyKey (job person) = js ''Director''
      then [personOf person (Some (js ''director'')) (Some director_ru)]
      else if propertyKey (job person) = js ''Writer''
              \<or> propertyKey (job person) = js ''Screenplay''
      then [personOf person (Some (js ''writer'')) (Some writer_ru)]
      else if propertyKey (job person) = js ''Producer''
              \<or> propertyKey (job person) = js ''Executive Producer''
      then [personOf person (Some (js ''producer'')) (Some producer_ru)]
      else if department person = Some (js ''Writing'')
      then [personOf person (Some (js ''writer'')) (Some writer_ru)]
      else [])"
  using assms by (simp add: crewPersons_def PROFESSION_MAP_def Let_def)

lemma convertCreditsToPersons_cast_first:
  "take (min 20 (length (orEmpty (cast cr)))) (convertCreditsToPersons cr)
     = map (\<lambda>person. personOf person (Some (js ''actor'')) (Some actor_ru))
         (take 20 (orEmpty (cast cr)))"
  by (simp add: convertCreditsToPersons_def min.commute)

subsection \<open>Search ranking\<close>



















subsection \<open>Image selection\<close>

lemma find_first_match:
  "\<forall>i\<in>set pre. \<not> P i \<Longrightarrow> P r \<Longrightarrow> find P (pre @ r # post) = Some r"
  by (induction pre) simp_all

lemma find_no_match: "\<forall>i\<in>set xs. \<not> P i \<Longrightarrow> find P xs = None"
  by (induction xs) simp_all

lemma extractBestImage_nonempty:
  "extractBestImage (Some (first # others)) role =
     (case find (\<lambda>img. iso_639_1 img = Some (js ''ru'')) (first # others) of
        Some ruImage \<Rightarrow> Some (originalAndW500 (file_path ruImage))
      | None \<Rightarrow>
          (case find (\<lambda>img. iso_639_1 img = Some (js ''en'')) (first # others) of
             Some enImage \<Rightarrow> Some (originalAndW500 (file_path enImage))
           | None \<Rightarrow> Some (originalAndW500 (file_path first))))"
  by (simp add: extractBestImage_def)

text \<open>
  C4. \<open>extractBestImage\<close> on a non-empty list selects the first entry tagged "ru" when
  there is one; otherwise the first entry tagged "en" when there is one; otherwise the
  first entry of the list. For the selected entry it returns the full-resolution URL and
  the medium-resolution URL: the base URL, the size token ("original", "w500") and the
  path of the entry. For an absent or an empty list it returns nothing.
\<close>

theorem extractBestImage_priority:
  "extractBestImage None role = None
   \<and> extractBestImage (Some []) role = None
   \<and> ((\<forall>i\<in>set pre. iso_639_1 i \<noteq> Some (js ''ru'')) \<and> iso_639_1 r = Some (js ''ru'') \<longrightarrow>
        extractBestImage (Some (pre @ r # post)) role
          = Some \<lparr> url = IMAGE_BASE_URL @ js ''original'' @ file_path r,
                   previewUrl = IMAGE_BASE_URL @ js ''w500'' @ file_path r \<rparr>)
   \<and> ((\<forall>i\<in>set (pre @ r # post). iso_639_1 i \<noteq> Some (js ''ru''))
        \<and> (\<forall>i\<in>set pre. iso_639_1 i \<noteq> Some (js ''en'')) \<and> iso_639_1 r = Some (js ''en'') \<longrightarrow>
        extractBestImage (Some (pre @ r # post)) role
          = Some \<lparr> url = IMAGE_BASE_URL @ js ''original'' @ file_path r,
                   previewUrl = IMAGE_BASE_URL @ js ''w500'' @ file_path r \<rparr>)
   \<and> ((\<forall>i\<in>set (r # post). iso_639_1 i \<noteq> Some (js ''ru'') \<and> iso_639_1 i \<noteq> Some (js ''en'')) \<longrightarrow>
        extractBestImage (Some (r # post)) role
          = Some \<lparr> url = IMAGE_BASE_URL @ js ''original'' @ file_path r,
                   previewUrl = IMAGE_BASE_URL @ js ''w500'' @ file_path r \<rparr>)"
proof -
  have none: "extractBestImage None role = None" "extractBestImage (Some []) role = None"
    by (simp_all add: extractBestImage_def)
  have pair: "originalAndW500 p
                = \<lparr> url = IMAGE_BASE_URL @ js ''original'' @ p,
                    previewUrl = IMAGE_BASE_URL @ js ''w500'' @ p \<rparr>" for p
    by (simp add: originalAndW500_def buildImageUrl_def POSTER_ORIGINAL_def POSTER_W500_def)
  have ne: "\<exists>first others. pre @ r # post = first # others"
    by (cases pre) simp_all
  have ru: "extractBestImage (Some (pre @ r # post)) role = Some (originalAndW500 (file_path r))"
    if "\<forall>i\<in>set pre. iso_639_1 i \<noteq> Some (js ''ru'')" and "iso_639_1 r = Some (js ''ru'')"
  proof -
    from ne obtain first others where eq: "pre @ r # post = first # others" by blast
    have "find (\<lambda>img. iso_639_1 img = Some (js ''ru'')) (pre @ r # post) = Some r"
      using that by (intro find_first_match) simp_all
    then show ?thesis
      unfolding eq by (simp add: extractBestImage_nonempty)
  qed
  have en: "extractBestImage (Some (pre @ r # post)) role = Some (originalAndW500 (file_path r))"
    if "\<forall>i\<in>set (pre @ r # post). iso_639_1 i \<noteq> Some (js ''ru'')"
      and "\<forall>i\<in>set pre. iso_639_1 i \<noteq> Some (js ''en'')" and "iso_639_1 r = Some (js ''en'')"
  proof -
    from ne obtain first others where eq: "pre @ r # post = first # others" by blast
    have "find (\<lambda>img. iso_639_1 img = Some (js ''ru'')) (pre @ r # post) = None"
      using that(1) by (intro find_no_match) simp
    moreover have "find (\<lambda>img. iso_639_1 img = Some (js ''en'')) (pre @ r # post) = Some r"
      using that(2,3) by (intro find_first_match) simp_all
    ultimately show ?thesis
      unfolding eq by (simp add: extractBestImage_nonempty)
  qed
  have any: "extractBestImage (Some (r # post)) role = Some (originalAndW500 (file_path r))"
    if "\<forall>i\<in>set (r # post). iso_639_1 i \<noteq> Some (js ''ru'') \<and> iso_639_1 i \<noteq> Some (js ''en'')"
  proof -
    have "find (\<lambda>img. iso_639_1 img = Some (js ''ru'')) (r # post) = None"
      using that by (intro find_no_match) simp
    moreover have "find (\<lambda>img. iso_639_1 img = Some (js ''en'')) (r # post) = None"
      using that by (intro find_no_match) simp
    ultimately show ?thesis
      by (simp add: extractBestImage_nonempty)
  qed
  from none ru en any show ?thesis
    unfolding pair by blast
qed

theorem extractBestImage_priority_witness:
  "extractBestImage
     (Some [\<lparr> iso_639_1 = Some (js ''fr''), file_path = js ''/f.jpg'' \<rparr>,
            \<lparr> iso_639_1 = Some (js ''en''), file_path = js ''/e.jpg'' \<rparr>,
            \<lparr> iso_639_1 = Some (js ''ru''), file_path = js ''/r.jpg'' \<rparr>]) Poster
     = Some \<lparr> url = js ''https://image.tmdb.org/t/p/original/r.jpg'',
              previewUrl = js ''https://image.tmdb.org/t/p/w500/r.jpg'' \<rparr>
   \<and> extractBestImage
     (Some [\<lparr> iso_639_1 = Some (js ''fr''), file_path = js ''/f.jpg'' \<rparr>,
            \<lparr> iso_639_1 = Some (js ''en''), file_path = js ''/e.jpg'' \<rparr>]) Poster
     = Some \<lparr> url = js ''https://image.tmdb.org/t/p/original/e.jpg'',
              previewUrl = js ''https://image.tmdb.org/t/p/w500/e.jpg'' \<rparr>
   \<and> extractBestImage
     (Some [\<lparr> iso_639_1 = Some (js ''fr''), file_path = js ''/f.jpg'' \<rparr>,
            \<lparr> iso_639_1 = None, file_path = js ''/n.jpg'' \<rparr>]) Poster
     = Some \<lparr> url = js ''https://image.tmdb.org/t/p/original/f.jpg'',
              previewUrl = js ''https://image.tmdb.org/t/p/w500/f.jpg'' \<rparr>"
  using
    extractBestImage_priority
      [of Poster
          "[\<lparr> iso_639_1 = Some (js ''fr''), file_path = js ''/f.jpg'' \<rparr>,
            \<lparr> iso_639_1 = Some (js ''en''), file_path = js ''/e.jpg'' \<rparr>]"
          "\<lparr> iso_639_1 = Some (js ''ru''), file_path = js ''/r.jpg'' \<rparr>" "[]"]
    extractBestImage_priority
      [of Poster
          "[\<lparr> iso_639_1 = Some (js ''fr''), file_path = js ''/f.jpg'' \<rparr>]"
          "\<lparr> iso_639_1 = Some (js ''en''), file_path = js ''/e.jpg'' \<rparr>" "[]"]
    extractBestImage_priority
      [of Poster "[]"
          "\<lparr> iso_639_1 = Some (js ''fr''), file_path = js ''/f.jpg'' \<rparr>"
          "[\<lparr> iso_639_1 = None, file_path = js ''/n.jpg'' \<rparr>]"]
  by (simp add: js_def IMAGE_BASE_URL_def)

subsection \<open>Record fetch\<close>

text \<open>
  C6. For a valid id and a valid token, \<open>getMovieById\<close> issues the details, credits
  and images requests together and joins them: none waits for the outcome of another,
  so whichever fails first decides. If any request fails the call fails with the
  handled error of a failed request and returns no record; a record is returned only
  when all three succeed. The error is that of the failed request that settles first:
  of the details request when no other failure settles before it, of the credits
  request when it settles before a failure of the details request and no failure of the
  images request settles before it, of the images request when it settles before every
  other failure (at equal times the earlier position in the array decides). In
  particular a failing credits request with succeeding details and images requests
  makes the call fail with the handled credits error. Which error is raised thus
  depends on the order in which the failures settle; the position of a request in the
  array decides only between failures that settle together.
\<close>

theorem getMovieById_all_or_nothing:
  assumes "isValidMovieId env ident" and "isValidToken env token"
  shows "(\<forall>x d i. snd (personCombinedCredits net ident) = Inl x
             \<and> snd (personDetails net ident) = Inr d \<and> snd (personImages net ident) = Inr i \<longrightarrow>
           getMovieById unicodeLower env net ident token userRating
             = Inl (handleApiError env x))
       \<and> ((\<exists>x. snd (personDetails net ident) = Inl x)
           \<or> (\<exists>x. snd (personCombinedCredits net ident) = Inl x)
           \<or> (\<exists>x. snd (personImages net ident) = Inl x) \<longrightarrow>
           (\<exists>x. getMovieById unicodeLower env net ident token userRating
                  = Inl (handleApiError env x)
               \<and> (snd (personDetails net ident) = Inl x
                  \<or> snd (personCombinedCredits net ident) = Inl x
                  \<or> snd (personImages net ident) = Inl x)))
       \<and> (\<forall>result. getMovieById unicodeLower env net ident token userRating = Inr result \<longrightarrow>
           (\<exists>d c i. snd (personDetails net ident) = Inr d
               \<and> snd (personCombinedCredits net ident) = Inr c
               \<and> snd (personImages net ident) = Inr i
               \<and> result = createMovieShowFrom unicodeLower
                            (convertPersonToTMDBFormat unicodeLower d c (Some i)) userRating))
       \<and> (\<forall>d c i. snd (personDetails net ident) = Inr d
               \<and> snd (personCombinedCredits net ident) = Inr c
               \<and> snd (personImages net ident) = Inr i \<longrightarrow>
           getMovieById unicodeLower env net ident token userRating
             = Inr (createMovieShowFrom unicodeLower
                      (convertPersonToTMDBFormat unicodeLower d c (Some i)) userRating))
       \<and> (\<forall>t1 x1. personDetails net ident = (t1, Inl x1)
             \<and> (\<forall>t2 x2. personCombinedCredits net ident = (t2, Inl x2) \<longrightarrow> t1 \<le> t2)
             \<and> (\<forall>t3 x3. personImages net ident = (t3, Inl x3) \<longrightarrow> t1 \<le> t3) \<longrightarrow>
           getMovieById unicodeLower env net ident token userRating
             = Inl (handleApiError env x1))
       \<and> (\<forall>t2 x2. personCombinedCredits net ident = (t2, Inl x2)
             \<and> (\<forall>t1 x1. personDetails net ident = (t1, Inl x1) \<longrightarrow> t2 < t1)
             \<and> (\<forall>t3 x3. personImages net ident = (t3, Inl x3) \<longrightarrow> t2 \<le> t3) \<longrightarrow>
           getMovieById unicodeLower env net ident token userRating
             = Inl (handleApiError env x2))
       \<and> (\<forall>t3 x3. personImages net ident = (t3, Inl x3)
             \<and> (\<forall>t1 x1. personDetails net ident = (t1, Inl x1) \<longrightarrow> t3 < t1)
             \<and> (\<forall>t2 x2. personCombinedCredits net ident = (t2, Inl x2) \<longrightarrow> t3 < t2) \<longrightarrow>
           getMovieById unicodeLower env net ident token userRating
             = Inl (handleApiError env x3))"
proof -
  obtain t1 o1 where d: "personDetails net ident = (t1, o1)"
    by (cases "personDetails net ident")
  obtain t2 o2 where c: "personCombinedCredits net ident = (t2, o2)"
    by (cases "personCombinedCredits net ident")
  obtain t3 o3 where i: "personImages net ident = (t3, o3)"
    by (cases "personImages net ident")
  show ?thesis
    using assms
    by (cases o1; cases o2; cases o3)
       (auto simp: d c i getMovieById_def getPersonDetails_def apiGet_def earlier_def)
qed

text \<open>
  The details request fails with 500 and the credits request with 503. When the details
  request settles first the call raises 500, when the credits request settles first it
  raises 503.
\<close>

theorem getMovieById_all_or_nothing_witness:
  "getMovieById (\<lambda>s. s)
     \<lparr> isValidToken = (\<lambda>t. t \<noteq> []), isValidSearchQuery = (\<lambda>q. trim q \<noteq> []),
         isValidMovieId = (\<lambda>i. 0 < i), handleApiError = ApiError \<rparr>
     \<lparr> searchPerson = (\<lambda>q. (1, Inl [])),
         personDetails = (\<lambda>i. (1, Inl (js ''500''))),
         personCombinedCredits = (\<lambda>i. (2, Inl (js ''503''))),
         personImages = (\<lambda>i. (3, Inr \<lparr> profiles = None, tagged_images = None \<rparr>)),
         configuration = (1, Inl []) \<rparr>
     31 (js ''key'') None
   = Inl (ApiError (js ''500''))
   \<and> getMovieById (\<lambda>s. s)
     \<lparr> isValidToken = (\<lambda>t. t \<noteq> []), isValidSearchQuery = (\<lambda>q. trim q \<noteq> []),
         isValidMovieId = (\<lambda>i. 0 < i), handleApiError = ApiError \<rparr>
     \<lparr> searchPerson = (\<lambda>q. (1, Inl [])),
         personDetails = (\<lambda>i. (2, Inl (js ''500''))),
         personCombinedCredits = (\<lambda>i. (1, Inl (js ''503''))),
         personImages = (\<lambda>i. (3, Inr \<lparr> profiles = None, tagged_images = None \<rparr>)),
         configuration = (1, Inl []) \<rparr>
     31 (js ''key'') None
   = Inl (ApiError (js ''503''))"
  using
    getMovieById_all_or_nothing
      [where unicodeLower = "\<lambda>s. s" and userRating = None and ident = 31
        and token = "js ''key''"
        and env = "\<lparr> isValidToken = (\<lambda>t. t \<noteq> []), isValidSearchQuery = (\<lambda>q. trim q \<noteq> []),
         isValidMovieId = (\<lambda>i. 0 < i), handleApiError = ApiError \<rparr>"
        and net = "\<lparr> searchPerson = (\<lambda>q. (1, Inl [])),
         personDetails = (\<lambda>i. (1, Inl (js ''500''))),
         personCombinedCredits = (\<lambda>i. (2, Inl (js ''503''))),
         personImages = (\<lambda>i. (3, Inr \<lparr> profiles = None, tagged_images = None \<rparr>)),
         configuration = (1, Inl []) \<rparr>"]
    getMovieById_all_or_nothing
      [where unicodeLower = "\<lambda>s. s" and userRating = None and ident = 31
        and token = "js ''key''"
        and env = "\<lparr> isValidToken = (\<lambda>t. t \<noteq> []), isValidSearchQuery = (\<lambda>q. trim q \<noteq> []),
         isValidMovieId = (\<lambda>i. 0 < i), handleApiError = ApiError \<rparr>"
        and net = "\<lparr> searchPerson = (\<lambda>q. (1, Inl [])),
         personDetails = (\<lambda>i. (2, Inl (js ''500''))),
         personCombinedCredits = (\<lambda>i. (1, Inl (js ''503''))),
         personImages = (\<lambda>i. (3, Inr \<lparr> profiles = None, tagged_images = None \<rparr>)),
         configuration = (1, Inl []) \<rparr>"]
  by (simp add: js_def)

subsection \<open>Helpers that degrade silently\<close>

text \<open>
  C7. When the images request fails, \<open>getAllImages\<close> returns the buckets with no
  posters, no backdrops and no logos; when the configuration request fails,
  \<open>validateToken\<close> returns false. Neither ever raises an error: each returns a value
  for every token, every id and every behaviour of the transport.
\<close>

theorem image_listing_and_probe_degrade:
  "(\<forall>x. snd (personImages net ident) = Inl x \<longrightarrow>
      getAllImages env net ident token
        = Inr \<lparr> bucket_posters = [], bucket_backdrops = [], bucket_logos = [] \<rparr>)
   \<and> (\<not> isValidToken env token \<longrightarrow>
      getAllImages env net ident token
        = Inr \<lparr> bucket_posters = [], bucket_backdrops = [], bucket_logos = [] \<rparr>)
   \<and> (\<exists>buckets. getAllImages env net ident token = Inr buckets)
   \<and> (\<forall>x. snd (configuration net) = Inl x \<longrightarrow> validateToken env net token = Inr False)
   \<and> (\<exists>answer. validateToken env net token = Inr answer)"
  by (cases "snd (personImages net ident)"; cases "snd (configuration net)")
     (auto simp: getAllImages_def validateToken_def apiGet_def await_def)

theorem image_listing_and_probe_degrade_witness:
  "getAllImages
     \<lparr> isValidToken = (\<lambda>t. t \<noteq> []), isValidSearchQuery = (\<lambda>q. trim q \<noteq> []),
       isValidMovieId = (\<lambda>i. 0 < i), handleApiError = ApiError \<rparr>
     \<lparr> searchPerson = (\<lambda>q. (1, Inl [])),
       personDetails = (\<lambda>i. (1, Inl [])),
       personCombinedCredits = (\<lambda>i. (1, Inl [])),
       personImages = (\<lambda>i. (1, Inl (js ''404''))),
       configuration = (1, Inl (js ''timeout'')) \<rparr>
     31 (js ''key'')
   = Inr \<lparr> bucket_posters = [], bucket_backdrops = [], bucket_logos = [] \<rparr>
   \<and> validateToken
     \<lparr> isValidToken = (\<lambda>t. t \<noteq> []), isValidSearchQuery = (\<lambda>q. trim q \<noteq> []),
       isValidMovieId = (\<lambda>i. 0 < i), handleApiError = ApiError \<rparr>
     \<lparr> searchPerson = (\<lambda>q. (1, Inl [])),
       personDetails = (\<lambda>i. (1, Inl [])),
       personCombinedCredits = (\<lambda>i. (1, Inl [])),
       personImages = (\<lambda>i. (1, Inl (js ''404''))),
       configuration = (1, Inl (js ''timeout'')) \<rparr>
     (js ''key'')
   = Inr False"
  using image_listing_and_probe_degrade
    [of "\<lparr> searchPerson = (\<lambda>q. (1, Inl [])),
       personDetails = (\<lambda>i. (1, Inl [])),
       personCombinedCredits = (\<lambda>i. (1, Inl [])),
       personImages = (\<lambda>i. (1, Inl (js ''404''))),
       configuration = (1, Inl (js ''timeout'')) \<rparr>"
        31
        "\<lparr> isValidToken = (\<lambda>t. t \<noteq> []), isValidSearchQuery = (\<lambda>q. trim q \<noteq> []),
           isValidMovieId = (\<lambda>i. 0 < i), handleApiError = ApiError \<rparr>"
        "js ''key''"]
  by simp

subsection \<open>Kind gating\<close>

lemma formatArray_blank:
  "formatArray [Str []] SHORT_VALUE None MAX_ARRAY_ITEMS = []"
  "formatArray [Str []] LONG_TEXT None MAX_ARRAY_ITEMS = []"
  "formatArray [Str []] URL None MAX_ARRAY_ITEMS = []"
  "formatArray [] SHORT_VALUE None MAX_ARRAY_ITEMS = []"
  by (simp_all add: formatArray_def List.map_filter_def trim_def)

lemma personFields_other_kind:
  assumes "info_type fullInfo \<noteq> js ''person''"
  shows "personFields unicodeLower fullInfo =
     [(''sex'', Strings []), (''spouses'', Strings []), (''birthday'', Strings []),
      (''death'', Strings []), (''growth'', Strings []), (''kinopoiskUrl'', Strings []),
      (''birthPlace'', Strings []), (''deathPlace'', Strings []), (''alsoKnownAs'', Strings []),
      (''biography'', Strings []), (''hometown'', Strings []), (''placeOfBirth'', Strings []),
      (''placeOfDeath'', Strings []), (''homepage'', Strings []),
      (''knownForDepartment'', Strings []), (''popularity'', Number 0),
      (''externalIds'', Strings []),
      (''allNames'',
         Strings (formatArray [Str (info_name fullInfo)] SHORT_VALUE None MAX_ARRAY_ITEMS))]"
  using assms by (simp add: personFields_def short_def long_def urls_def formatArray_blank)

lemma personFields_keys:
  "map fst (personFields unicodeLower fullInfo) =
     [''sex'', ''spouses'', ''birthday'', ''death'', ''growth'', ''kinopoiskUrl'',
      ''birthPlace'', ''deathPlace'', ''alsoKnownAs'', ''biography'', ''hometown'',
      ''placeOfBirth'', ''placeOfDeath'', ''homepage'', ''knownForDepartment'', ''popularity'',
      ''externalIds'', ''allNames'']"
  by (simp add: personFields_def)

lemma createMovieShowFrom_keys:
  "map fst (createMovieShowFrom unicodeLower fullInfo userRating) =
     [''id'', ''name'', ''seasonsCount'', ''seriesInSeasonCount'']
     @ map fst (personFields unicodeLower fullInfo)
     @ (case userRating of None \<Rightarrow> [] | Some r \<Rightarrow> [''userRating''])"
  by (simp add: createMovieShowFrom_def Let_def split: option.split)

text \<open>
  C9 says that every field of the person block holds its empty sentinel when the record
  is a movie or a series. The field \<open>allNames\<close> of the block does not: for a movie named
  "Dune" it holds that name.
\<close>

theorem createMovieShowFrom_allNames_not_sentinel:
  "info_type
     \<lparr> info_id = 438631, info_name = js ''Dune'', info_type = js ''movie'',
        description = js ''A desert planet.'', info_poster = None, info_backdrop = None,
        info_logo = None, persons = [], isSeries = False, TMDBLink = None,
        seasonsInfo = None, rating_tmdb = Some 8, externalId_imdb = None, slogan = None,
        premiere_world = None, deathday = None, gender = None, birthPlace = None,
        deathPlace = None, hometown = None, homepage = None, knownForDepartment = None,
        alsoKnownAs = None \<rparr> \<noteq> js ''person''
   \<and> map_of (createMovieShowFrom (\<lambda>s. s)
      \<lparr> info_id = 438631, info_name = js ''Dune'', info_type = js ''movie'',
        description = js ''A desert planet.'', info_poster = None, info_backdrop = None,
        info_logo = None, persons = [], isSeries = False, TMDBLink = None,
        seasonsInfo = None, rating_tmdb = Some 8, externalId_imdb = None, slogan = None,
        premiere_world = None, deathday = None, gender = None, birthPlace = None,
        deathPlace = None, hometown = None, homepage = None, knownForDepartment = None,
        alsoKnownAs = None \<rparr> None) ''allNames'' = Some (Strings [js ''Dune''])
   \<and> Strings [js ''Dune''] \<noteq> Strings []"
  by (simp add: createMovieShowFrom_def personFields_def short_def long_def urls_def
      formatArray_def List.map_filter_def trim_def cleanTextForMetadata_def
      MAX_ARRAY_ITEMS_def calculateSeasonsData_def js_def isWhiteSpace_def)

text \<open>
  C9, amended. For a record whose kind is not person, \<open>createMovieShowFrom\<close> sets the
  person fields sex, spouses, birthday, death, growth, kinopoiskUrl, birthPlace,
  deathPlace, alsoKnownAs, biography, hometown, placeOfBirth, placeOfDeath, homepage,
  knownForDepartment and externalIds to the empty list and popularity to 0; \<open>allNames\<close>
  holds the primary name in the short format. No key occurs twice, and the keys are the
  same whatever the kind of the record.
\<close>

theorem createMovieShowFrom_person_fields_of_other_kinds:
  assumes "info_type fullInfo \<noteq> js ''person''"
  shows "list_all (\<lambda>key. map_of (createMovieShowFrom unicodeLower fullInfo userRating) key = Some (Strings []))
           [''sex'', ''spouses'', ''birthday'', ''death'', ''growth'', ''kinopoiskUrl'',
            ''birthPlace'', ''deathPlace'', ''alsoKnownAs'', ''biography'', ''hometown'',
            ''placeOfBirth'', ''placeOfDeath'', ''homepage'', ''knownForDepartment'',
            ''externalIds'']
       \<and> map_of (createMovieShowFrom unicodeLower fullInfo userRating) ''popularity'' = Some (Number 0)
       \<and> map_of (createMovieShowFrom unicodeLower fullInfo userRating) ''allNames''
           = Some (Strings (formatArray [Str (info_name fullInfo)] SHORT_VALUE None MAX_ARRAY_ITEMS))
       \<and> distinct (map fst (createMovieShowFrom unicodeLower fullInfo userRating))
       \<and> map fst (createMovieShowFrom unicodeLower fullInfo userRating)
           = map fst (createMovieShowFrom unicodeLower anyInfo userRating)"
proof -
  have keys: "map fst (createMovieShowFrom unicodeLower fullInfo userRating)
                = map fst (createMovieShowFrom unicodeLower anyInfo userRating)"
    by (simp add: createMovieShowFrom_keys personFields_keys)
  have dist: "distinct (map fst (createMovieShowFrom unicodeLower fullInfo userRating))"
    by (simp add: createMovieShowFrom_keys personFields_keys split: option.split)
  have vals: "list_all (\<lambda>key. map_of (createMovieShowFrom unicodeLower fullInfo userRating) key = Some (Strings []))
           [''sex'', ''spouses'', ''birthday'', ''death'', ''growth'', ''kinopoiskUrl'',
            ''birthPlace'', ''deathPlace'', ''alsoKnownAs'', ''biography'', ''hometown'',
            ''placeOfBirth'', ''placeOfDeath'', ''homepage'', ''knownForDepartment'',
            ''externalIds'']"
    by (simp add: createMovieShowFrom_def Let_def personFields_other_kind [OF assms])
  have pop: "map_of (createMovieShowFrom unicodeLower fullInfo userRating) ''popularity'' = Some (Number 0)"
    by (simp add: createMovieShowFrom_def Let_def personFields_other_kind [OF assms])
  have names: "map_of (createMovieShowFrom unicodeLower fullInfo userRating) ''allNames''
           = Some (Strings (formatArray [Str (info_name fullInfo)] SHORT_VALUE None MAX_ARRAY_ITEMS))"
    by (simp add: createMovieShowFrom_def Let_def personFields_other_kind [OF assms])
  from vals pop names dist keys show ?thesis by blast
qed

theorem createMovieShowFrom_person_fields_of_other_kinds_witness:
  "map_of (createMovieShowFrom (\<lambda>s. s)
      \<lparr> info_id = 438631, info_name = js ''Dune'', info_type = js ''movie'',
        description = js ''A desert planet.'', info_poster = None, info_backdrop = None,
        info_logo = None, persons = [], isSeries = False, TMDBLink = None,
        seasonsInfo = None, rating_tmdb = Some 8, externalId_imdb = None, slogan = None,
        premiere_world = None, deathday = None, gender = None, birthPlace = None,
        deathPlace = None, hometown = None, homepage = None, knownForDepartment = None,
        alsoKnownAs = None \<rparr> None) ''sex'' = Some (Strings [])
   \<and> map_of (createMovieShowFrom (\<lambda>s. s)
      \<lparr> info_id = 438631, info_name = js ''Dune'', info_type = js ''movie'',
        description = js ''A desert planet.'', info_poster = None, info_backdrop = None,
        info_logo = None, persons = [], isSeries = False, TMDBLink = None,
        seasonsInfo = None, rating_tmdb = Some 8, externalId_imdb = None, slogan = None,
        premiere_world = None, deathday = None, gender = None, birthPlace = None,
        deathPlace = None, hometown = None, homepage = None, knownForDepartment = None,
        alsoKnownAs = None \<rparr> None) ''popularity'' = Some (Number 0)"
  using createMovieShowFrom_person_fields_of_other_kinds
    [where fullInfo = "\<lparr> info_id = 438631, info_name = js ''Dune'', info_type = js ''movie'',
        description = js ''A desert planet.'', info_poster = None, info_backdrop = None,
        info_logo = None, persons = [], isSeries = False, TMDBLink = None,
        seasonsInfo = None, rating_tmdb = Some 8, externalId_imdb = None, slogan = None,
        premiere_world = None, deathday = None, gender = None, birthPlace = None,
        deathPlace = None, hometown = None, homepage = None, knownForDepartment = None,
        alsoKnownAs = None \<rparr>"
      and userRating = None
      and anyInfo = "\<lparr> info_id = 438631, info_name = js ''Dune'', info_type = js ''movie'',
        description = js ''A desert planet.'', info_poster = None, info_backdrop = None,
        info_logo = None, persons = [], isSeries = False, TMDBLink = None,
        seasonsInfo = None, rating_tmdb = Some 8, externalId_imdb = None, slogan = None,
        premiere_world = None, deathday = None, gender = None, birthPlace = None,
        deathPlace = None, hometown = None, homepage = None, knownForDepartment = None,
        alsoKnownAs = None \<rparr>"
      and unicodeLower = "\<lambda>s. s"]
  by (simp add: js_def)

subsection \<open>Seasons\<close>

lemma regular_seasons_only:
  "filter (\<lambda>s. season_number s \<noteq> 0 \<and> 0 < season_number s) xs
     = filter (\<lambda>s. 0 < season_number s) xs"
  by (induction xs) simp_all

text \<open>
  C10. The season summaries of \<open>convertTVShowToTMDBFormat\<close> are the seasons of the
  payload whose number is greater than 0, in the order of the payload. No summary has
  the number 0, the season count is the number of those seasons, and the season data
  (count and average episodes per season) are what they would be had the payload held no
  season numbered 0.
\<close>

theorem seasonsInfo_excludes_specials:
  "seasonsInfo (convertTVShowToTMDBFormat details cr images)
     = Some (map (\<lambda>s. \<lparr> number = season_number s, episodesCount = episode_count s \<rparr>)
               (filter (\<lambda>s. 0 < season_number s) (orEmpty (seasons details))))
   \<and> (\<forall>info \<in> set (orEmpty (seasonsInfo (convertTVShowToTMDBFormat details cr images))).
         0 < number info)
   \<and> seasonCount (calculateSeasonsData (seasonsInfo (convertTVShowToTMDBFormat details cr images)))
       = length (filter (\<lambda>s. 0 < season_number s) (orEmpty (seasons details)))
   \<and> calculateSeasonsData (seasonsInfo (convertTVShowToTMDBFormat details cr images))
       = calculateSeasonsData (seasonsInfo (convertTVShowToTMDBFormat
           (details \<lparr> seasons := Some (filter (\<lambda>s. season_number s \<noteq> 0)
                                          (orEmpty (seasons details))) \<rparr>) cr images))
   \<and> map_of (createMovieShowFrom unicodeLower (convertTVShowToTMDBFormat details cr images) userRating)
        ''seasonsCount''
       = Some (Number (of_nat (length (filter (\<lambda>s. 0 < season_number s)
                                          (orEmpty (seasons details))))))"
proof -
  let ?regular = "filter (\<lambda>s. 0 < season_number s) (orEmpty (seasons details))"
  have info: "seasonsInfo (convertTVShowToTMDBFormat details cr images)
     = Some (map (\<lambda>s. \<lparr> number = season_number s, episodesCount = episode_count s \<rparr>) ?regular)"
    by (simp add: convertTVShowToTMDBFormat_def)
  have pos: "\<forall>info \<in> set (orEmpty (seasonsInfo (convertTVShowToTMDBFormat details cr images))).
         0 < number info"
    unfolding info by (auto simp: orEmpty_def)
  have cnt: "seasonCount (calculateSeasonsData (seasonsInfo (convertTVShowToTMDBFormat details cr images)))
       = length ?regular"
    unfolding info by (simp add: calculateSeasonsData_def Let_def)
  have same: "calculateSeasonsData (seasonsInfo (convertTVShowToTMDBFormat details cr images))
       = calculateSeasonsData (seasonsInfo (convertTVShowToTMDBFormat
           (details \<lparr> seasons := Some (filter (\<lambda>s. season_number s \<noteq> 0)
                                          (orEmpty (seasons details))) \<rparr>) cr images))"
    by (simp add: convertTVShowToTMDBFormat_def orEmpty_def regular_seasons_only
        split: option.split)
  have shown: "map_of (createMovieShowFrom unicodeLower (convertTVShowToTMDBFormat details cr images) userRating)
        ''seasonsCount'' = Some (Number (of_nat (length ?regular)))"
    using cnt by (simp add: createMovieShowFrom_def Let_def)
  from info pos cnt same shown show ?thesis by blast
qed

theorem seasonsInfo_excludes_specials_witness:
  "seasonsInfo (convertTVShowToTMDBFormat
      \<lparr> tv_id = 1399, tv_name = Some (js ''Thrones''), tv_overview = None,
        tv_poster_path = None, tv_backdrop_path = None, tv_homepage = None,
        first_air_date = None,
        seasons = Some [\<lparr> season_number = 0, episode_count = 53 \<rparr>,
                        \<lparr> season_number = 1, episode_count = 10 \<rparr>,
                        \<lparr> season_number = 2, episode_count = 9 \<rparr>],
        tv_vote_average = None, tv_external_imdb_id = None \<rparr> \<lparr> cast = None, crew = None \<rparr> None)
     = Some [\<lparr> number = 1, episodesCount = 10 \<rparr>, \<lparr> number = 2, episodesCount = 9 \<rparr>]
   \<and> calculateSeasonsData (seasonsInfo (convertTVShowToTMDBFormat
      \<lparr> tv_id = 1399, tv_name = Some (js ''Thrones''), tv_overview = None,
        tv_poster_path = None, tv_backdrop_path = None, tv_homepage = None,
        first_air_date = None,
        seasons = Some [\<lparr> season_number = 0, episode_count = 53 \<rparr>,
                        \<lparr> season_number = 1, episode_count = 10 \<rparr>,
                        \<lparr> season_number = 2, episode_count = 9 \<rparr>],
        tv_vote_average = None, tv_external_imdb_id = None \<rparr> \<lparr> cast = None, crew = None \<rparr> None))
     = \<lparr> seasonCount = 2, averageEpisodesPerSeason = 10 \<rparr>"
proof -
  note first = seasonsInfo_excludes_specials
    [where details = "\<lparr> tv_id = 1399, tv_name = Some (js ''Thrones''), tv_overview = None,
        tv_poster_path = None, tv_backdrop_path = None, tv_homepage = None,
        first_air_date = None,
        seasons = Some [\<lparr> season_number = 0, episode_count = 53 \<rparr>,
                        \<lparr> season_number = 1, episode_count = 10 \<rparr>,
                        \<lparr> season_number = 2, episode_count = 9 \<rparr>],
        tv_vote_average = None, tv_external_imdb_id = None \<rparr>"
      and cr = "\<lparr> cast = None, crew = None \<rparr>"
      and images = None
      and userRating = None
      and unicodeLower = "\<lambda>s. s",
       THEN conjunct1]
  show ?thesis
    unfolding first by (simp add: orEmpty_def calculateSeasonsData_def ceiling_eq_iff)
qed

end
